theory Spec2Isabelle
  imports Complex_Main "HOL-Library.Word"
begin

unbundle bit_operations_syntax

text \<open>
  A model of the acquisition and control core of the inverter service (inverter_api.py)
  and of the daily analysis engine (daily_analyzer.py), and the properties of the
  specification checked against it. Python floats are modelled as real numbers, the
  tables of the SQLite database as lists of rows in insertion order, and every reading
  of a clock as an argument of the operation that takes it.
\<close>

section \<open>Analog sensor reader: ADS1115 conversion value\<close>

text \<open>
  \<^verbatim>\<open>i2c_read_all\<close> (inverter_api.py) reads the two bytes of the conversion register and
  builds \<^verbatim>\<open>raw = (int(data[0]) << 8) | int(data[1])\<close>; then
  \<^verbatim>\<open>if raw > 32767: raw -= 65535\<close>. Python integers are unbounded, so the model is
  over \<open>int\<close>.
\<close>

definition ads1115_raw :: "int \<Rightarrow> int \<Rightarrow> int" where
  "ads1115_raw d0 d1 = (push_bit 8 d0) OR d1"

definition ads1115_sign_correct :: "int \<Rightarrow> int" where
  "ads1115_sign_correct raw = (if raw > 32767 then raw - 65535 else raw)"

definition ads1115_volts :: "int \<Rightarrow> real" where
  "ads1115_volts raw = real_of_int (ads1115_sign_correct raw) * (4.096 / 32768.0)"

text \<open>The field-bus client's correction of a signed register, \<^verbatim>\<open>_to_signed16\<close>.\<close>

definition to_signed16 :: "int \<Rightarrow> int" where
  "to_signed16 x = (if x \<ge> 0x8000 then x - 0x10000 else x)"

section \<open>Relay controller\<close>

text \<open>
  \<^verbatim>\<open>GPIO_BACKEND\<close> is \<^verbatim>\<open>"rpi"\<close>, \<^verbatim>\<open>"lgpio"\<close> or \<^verbatim>\<open>None\<close>, chosen once when the
  module is imported. The relay section of \<^verbatim>\<open>CONF\<close> is a record; \<open>min_toggle_sec\<close> is
  an integer number of seconds (the code reads it through \<^verbatim>\<open>int(...)\<close> everywhere).
\<close>

datatype gpio_backend = Rpi | Lgpio

record relay_cfg =
  mode :: string
  enabled :: bool
  gpio_pin :: int
  active_high :: bool
  on_v :: real
  off_v :: real
  min_toggle_sec :: int

definition relay_defaults :: relay_cfg where
  "relay_defaults = \<lparr> mode = ''gpio'', enabled = False, gpio_pin = 17, active_high = True,
                       on_v = 47.5, off_v = 49.0, min_toggle_sec = 5 \<rparr>"

text \<open>\<^verbatim>\<open>str(cfg.get("mode", "gpio")).lower() == "gpio"\<close>, lower-casing the ASCII letters.\<close>

definition lower_char :: "char \<Rightarrow> char" where
  "lower_char c = (let n = (of_char c :: nat) in
                     if 65 \<le> n \<and> n \<le> 90 then char_of (n + 32) else c)"

definition mode_is_gpio :: "relay_cfg \<Rightarrow> bool" where
  "mode_is_gpio cfg = (map lower_char (mode cfg) = ''gpio'')"

text \<open>
  The process-wide relay state: the globals \<^verbatim>\<open>RELAY_STATE\<close> (None = unknown) and
  \<^verbatim>\<open>RELAY_LAST_TOGGLE\<close>, and the level driven on the output line (None while the pin
  has not been driven by this process).
\<close>

record relay_world =
  RELAY_STATE :: "bool option"
  RELAY_LAST_TOGGLE :: real
  line_level :: "bool option"

definition relay_initial :: relay_world where
  "relay_initial = \<lparr> RELAY_STATE = None, RELAY_LAST_TOGGLE = 0, line_level = None \<rparr>"

text \<open>
  \<^verbatim>\<open>_gpio_setup_output\<close> and \<^verbatim>\<open>_gpio_write\<close>: the driver call either succeeds
  (\<open>drv_ok\<close>) and drives the line, or raises, which the helper catches and reports as
  False. Without a backend both return False and touch nothing.
\<close>

definition gpio_setup_output :: "gpio_backend option \<Rightarrow> bool \<Rightarrow> bool \<Rightarrow> bool option \<Rightarrow> bool \<times> bool option" where
  "gpio_setup_output be drv_ok initial_high line =
     (case be of
        Some Rpi \<Rightarrow> if drv_ok then (True, Some initial_high) else (False, line)
      | Some Lgpio \<Rightarrow> if drv_ok then (True, Some initial_high) else (False, line)
      | None \<Rightarrow> (False, line))"



text \<open>\<^verbatim>\<open>relay_setup()\<close>: returns early when there is no backend or the mode is not gpio.\<close>

definition relay_setup :: "relay_cfg \<Rightarrow> gpio_backend option \<Rightarrow> bool \<Rightarrow> real \<Rightarrow> relay_world \<Rightarrow> relay_world" where
  "relay_setup cfg be drv_ok t w =
     (if be = None \<or> \<not> mode_is_gpio cfg then w
      else let off_level_high = (if active_high cfg then False else True);
               line' = snd (gpio_setup_output be drv_ok off_level_high (line_level w))
           in w\<lparr> RELAY_STATE := Some False, RELAY_LAST_TOGGLE := t, line_level := line' \<rparr>)"

text \<open>
  One acquisition cycle's call of \<^verbatim>\<open>relay_auto_step(batt_v)\<close>: \<open>now\<close> is the reading
  of the monotonic clock taken by the step, \<open>t_apply\<close> the later reading taken inside
  \<^verbatim>\<open>relay_apply\<close> when a transition is applied.
\<close>

record tick =
  batt_v :: "real option"
  now :: real
  t_apply :: real
  drv_ok :: bool





section \<open>Time-series store\<close>

text \<open>
  A timestamp is the number of seconds of local wall-clock time since a fixed midnight.
  The program stores timestamps as text in the fixed-width format
  \<^verbatim>\<open>%Y-%m-%d %H:%M:%S\<close>, whose text order is the order of these numbers.
  \<open>now_str\<close> is \<^verbatim>\<open>now_str()\<close> at a clock reading in seconds: it drops the fraction.
\<close>

definition now_str :: "real \<Rightarrow> int" where
  "now_str t = \<lfloor>t\<rfloor>"

definition ts_hour :: "int \<Rightarrow> int" where
  "ts_hour ts = (ts div 3600) mod 24"

definition ts_minute_of_hour :: "int \<Rightarrow> int" where
  "ts_minute_of_hour ts = (ts div 60) mod 60"

text \<open>\<^verbatim>\<open>strftime('%Y-%m-%d %H:%M:00', timestamp)\<close> and \<^verbatim>\<open>date(ts_min)\<close> of SQLite.\<close>

definition ts_min :: "int \<Rightarrow> int" where
  "ts_min ts = (ts div 60) * 60"

definition ts_date :: "int \<Rightarrow> int" where
  "ts_date ts = ts div 86400"

text \<open>One row of \<^verbatim>\<open>samples\<close>; every REAL column may be NULL.\<close>

record sample =
  timestamp :: int
  pv_w :: "real option"
  pv_v :: "real option"
  pv_a :: "real option"
  battery_w :: "real option"
  battery_v :: "real option"
  battery_a :: "real option"
  grid_w :: "real option"
  grid_v :: "real option"
  grid_hz :: "real option"
  grid_a :: "real option"
  load_w :: "real option"
  load_v :: "real option"
  load_hz :: "real option"
  load_a :: "real option"
  load_va :: "real option"
  load_pf :: "real option"
  load_percent :: "real option"
  dc_temp :: "real option"
  inverter_temp :: "real option"
  heatsink_temp :: "real option"
  dc_bus_v :: "real option"

definition blank_sample :: "int \<Rightarrow> sample" where
  "blank_sample ts = \<lparr> timestamp = ts, pv_w = None, pv_v = None, pv_a = None,
     battery_w = None, battery_v = None, battery_a = None,
     grid_w = None, grid_v = None, grid_hz = None, grid_a = None,
     load_w = None, load_v = None, load_hz = None, load_a = None, load_va = None,
     load_pf = None, load_percent = None,
     dc_temp = None, inverter_temp = None, heatsink_temp = None, dc_bus_v = None \<rparr>"

text \<open>One row of \<^verbatim>\<open>archive\<close>, keyed by \<open>day\<close>.\<close>

record archive_row =
  day :: int
  pv_Wh :: "real option"
  load_Wh :: "real option"
  grid_Wh :: "real option"
  batt_in_Wh :: "real option"
  batt_out_Wh :: "real option"

text \<open>
  One row of \<^verbatim>\<open>battery_counters\<close>. The reset reason is text; the reason written by
  an automatic reset is the f-string
  \<^verbatim>\<open>f"battery_{reset_thr:.1f}v_discharge_{battery_v:.1f}V"\<close>, kept here as its two
  arguments.
\<close>

datatype reason = Reason_text string | Reason_discharge real real

record battery_counter =
  counter_id :: nat
  counter_type :: string
  start_timestamp :: int
  start_battery_v :: real
  total_batt_in_Wh :: real
  total_batt_out_Wh :: real
  total_batt_net_Wh :: real
  reset_reason :: "reason option"
  created_at :: int

subsection \<open>Inserting a sample\<close>

text \<open>
  \<^verbatim>\<open>INSERT OR IGNORE INTO samples(...)\<close> of \<^verbatim>\<open>poll_loop\<close>, under the unique index
  \<^verbatim>\<open>uniq_ts ON samples(timestamp)\<close> of \<^verbatim>\<open>db_init\<close>: a row whose timestamp is
  already stored is skipped.
\<close>

definition insert_or_ignore :: "sample \<Rightarrow> sample list \<Rightarrow> sample list" where
  "insert_or_ignore s tbl =
     (if timestamp s \<in> set (map timestamp tbl) then tbl else tbl @ [s])"

subsection \<open>Archival\<close>

text \<open>SQL aggregates skip NULL and are NULL when nothing is left.\<close>

definition non_null :: "real option list \<Rightarrow> real list" where
  "non_null xs = [the x. x \<leftarrow> xs, x \<noteq> None]"

definition sql_avg :: "real option list \<Rightarrow> real option" where
  "sql_avg xs = (let vs = non_null xs in
                   if vs = [] then None else Some (sum_list vs / real (length vs)))"

definition sql_sum :: "real option list \<Rightarrow> real option" where
  "sql_sum xs = (let vs = non_null xs in if vs = [] then None else Some (sum_list vs))"

definition sql_div60 :: "real option \<Rightarrow> real option" where
  "sql_div60 x = map_option (\<lambda>v. v / 60.0) x"

text \<open>
  The rows of the common table expression \<^verbatim>\<open>m\<close>: one per minute, each the
  averages of the group of samples of that minute.
\<close>

record minute_row =
  m_ts_min :: int
  m_pv_w :: "real option"
  m_battery_w :: "real option"
  m_load_w :: "real option"
  m_grid_w :: "real option"

definition minute_row_of :: "sample list \<Rightarrow> int \<Rightarrow> minute_row" where
  "minute_row_of old k =
     (let grp = [s \<leftarrow> old. ts_min (timestamp s) = k] in
      \<lparr> m_ts_min = k,
        m_pv_w = sql_avg (map pv_w grp),
        m_battery_w = sql_avg (map battery_w grp),
        m_load_w = sql_avg (map load_w grp),
        m_grid_w = sql_avg (map grid_w grp) \<rparr>)"

definition minute_rows :: "int \<Rightarrow> sample list \<Rightarrow> minute_row list" where
  "minute_rows cutoff smp =
     (let old = [s \<leftarrow> smp. timestamp s < cutoff];
          keys = sort (remdups (map (\<lambda>s. ts_min (timestamp s)) old))
      in map (minute_row_of old) keys)"

text \<open>
  \<^verbatim>\<open>CASE WHEN battery_w>0 THEN battery_w ELSE 0 END\<close> and its mirror; a comparison
  with NULL is not true, so NULL takes the ELSE branch.
\<close>

definition batt_in_case :: "real option \<Rightarrow> real option" where
  "batt_in_case b = (case b of Some x \<Rightarrow> if x > 0 then Some x else Some 0 | None \<Rightarrow> Some 0)"

definition batt_out_case :: "real option \<Rightarrow> real option" where
  "batt_out_case b = (case b of Some x \<Rightarrow> if x < 0 then Some (- x) else Some 0 | None \<Rightarrow> Some 0)"

text \<open>The grouped-by-day summary, one row per day, \<^verbatim>\<open>ORDER BY day ASC\<close>.\<close>

definition archive_row_of :: "minute_row list \<Rightarrow> int \<Rightarrow> archive_row" where
  "archive_row_of ms d =
     (let grp = [m \<leftarrow> ms. ts_date (m_ts_min m) = d] in
      \<lparr> day = d,
        pv_Wh = sql_div60 (sql_sum (map m_pv_w grp)),
        load_Wh = sql_div60 (sql_sum (map m_load_w grp)),
        grid_Wh = sql_div60 (sql_sum (map m_grid_w grp)),
        batt_in_Wh = sql_div60 (sql_sum (map (\<lambda>m. batt_in_case (m_battery_w m)) grp)),
        batt_out_Wh = sql_div60 (sql_sum (map (\<lambda>m. batt_out_case (m_battery_w m)) grp)) \<rparr>)"

definition archive_rows :: "int \<Rightarrow> sample list \<Rightarrow> archive_row list" where
  "archive_rows cutoff smp =
     (let ms = minute_rows cutoff smp;
          days = sort (remdups (map (\<lambda>m. ts_date (m_ts_min m)) ms))
      in map (archive_row_of ms) days)"

text \<open>\<^verbatim>\<open>INSERT OR REPLACE INTO archive\<close>: the row of the same day, if any, is replaced.\<close>

definition archive_upsert :: "archive_row \<Rightarrow> archive_row list \<Rightarrow> archive_row list" where
  "archive_upsert r tbl = [x \<leftarrow> tbl. day x \<noteq> day r] @ [r]"

fun archive_upsert_all :: "archive_row list \<Rightarrow> archive_row list \<Rightarrow> archive_row list" where
  "archive_upsert_all [] tbl = tbl"
| "archive_upsert_all (r # rs) tbl = archive_upsert_all rs (archive_upsert r tbl)"

text \<open>The database: the three tables the operations below touch.\<close>

record db =
  tbl_samples :: "sample list"
  tbl_archive :: "archive_row list"
  tbl_battery_counters :: "battery_counter list"

definition insert_sample :: "sample \<Rightarrow> db \<Rightarrow> db" where
  "insert_sample s d = d\<lparr> tbl_samples := insert_or_ignore s (tbl_samples d) \<rparr>"

record archive_summary =
  minutes_to_delete :: nat
  days_to_archive :: nat

text \<open>\<^verbatim>\<open>_archive_compute_and_apply(cutoff, apply)\<close>.\<close>

definition archive_compute_and_apply :: "int \<Rightarrow> bool \<Rightarrow> db \<Rightarrow> archive_summary \<times> db" where
  "archive_compute_and_apply cutoff apply d =
     (let cnt = length [s \<leftarrow> tbl_samples d. timestamp s < cutoff];
          rows = archive_rows cutoff (tbl_samples d);
          summary = \<lparr> minutes_to_delete = cnt, days_to_archive = length rows \<rparr>
      in if apply \<and> rows \<noteq> []
         then (summary, d\<lparr> tbl_archive := archive_upsert_all rows (tbl_archive d),
                           tbl_samples := [s \<leftarrow> tbl_samples d. \<not> timestamp s < cutoff] \<rparr>)
         else (summary, d))"

text \<open>
  \<^verbatim>\<open>db_archive_and_trim(days)\<close>: the cutoff is midnight of the day \<open>days\<close> days before
  the clock reading, \<^verbatim>\<open>(datetime.now() - timedelta(days=days)).strftime("%Y-%m-%d 00:00:00")\<close>.
\<close>

definition archive_cutoff :: "real \<Rightarrow> int \<Rightarrow> int" where
  "archive_cutoff clock days = ((now_str clock - days * 86400) div 86400) * 86400"

definition db_archive_and_trim :: "real \<Rightarrow> int \<Rightarrow> db \<Rightarrow> db" where
  "db_archive_and_trim clock days d =
     (let cutoff = archive_cutoff clock days;
          rows = archive_rows cutoff (tbl_samples d)
      in d\<lparr> tbl_archive := archive_upsert_all rows (tbl_archive d),
            tbl_samples := [s \<leftarrow> tbl_samples d. \<not> timestamp s < cutoff] \<rparr>)"

section \<open>Battery energy counter\<close>

definition daily_net :: "battery_counter \<Rightarrow> bool" where
  "daily_net c = (counter_type c = ''daily_net'')"

text \<open>
  \<^verbatim>\<open>SELECT ... WHERE counter_type = 'daily_net' ORDER BY start_timestamp DESC LIMIT 1\<close>.
  The table is kept in insertion order; among rows with the same greatest start timestamp
  SQL leaves the choice open, and the model takes the one inserted last. The debounce
  reads only the start timestamp, which all such rows share.
\<close>

fun latest_counter :: "battery_counter list \<Rightarrow> battery_counter option" where
  "latest_counter [] = None"
| "latest_counter (c # cs) =
     (case latest_counter cs of
        None \<Rightarrow> (if daily_net c then Some c else None)
      | Some d \<Rightarrow> (if daily_net c \<and> start_timestamp c > start_timestamp d then Some c else Some d))"

text \<open>\<^verbatim>\<open>cursor.lastrowid\<close> of an AUTOINCREMENT key: above every id in the table.\<close>

definition next_id :: "battery_counter list \<Rightarrow> nat" where
  "next_id tbl = Suc (fold max (map counter_id tbl) 0)"

text \<open>
  The row written by \<^verbatim>\<open>INSERT INTO battery_counters (counter_type, start_timestamp,
  start_battery_v, created_at) VALUES ('daily_net', now, 0.0, now)\<close>: the totals take their
  column default 0.0 and the reason is NULL.
\<close>

definition new_counter :: "nat \<Rightarrow> int \<Rightarrow> battery_counter" where
  "new_counter i ts = \<lparr> counter_id = i, counter_type = ''daily_net'', start_timestamp = ts,
     start_battery_v = 0.0, total_batt_in_Wh = 0.0, total_batt_out_Wh = 0.0,
     total_batt_net_Wh = 0.0, reset_reason = None, created_at = ts \<rparr>"

text \<open>
  \<^verbatim>\<open>get_current_battery_counter()\<close>: the latest counter, or a new one when the table has
  none. The result is the dictionary handed to the caller and the table.
\<close>

definition get_current_battery_counter :: "real \<Rightarrow> battery_counter list \<Rightarrow> battery_counter \<times> battery_counter list" where
  "get_current_battery_counter clock tbl =
     (case latest_counter tbl of
        Some row \<Rightarrow> (row, tbl)
      | None \<Rightarrow> (let c = new_counter (next_id tbl) (now_str clock)
                 in (c\<lparr> reset_reason := Some (Reason_text ''initial'') \<rparr>, tbl @ [c])))"

text \<open>
  The two \<^verbatim>\<open>UPDATE battery_counters SET ... WHERE id = ?\<close> statements. The right-hand
  sides of an SQL UPDATE read the row as it was before the statement.
\<close>

definition sql_update_charge :: "real \<Rightarrow> nat \<Rightarrow> battery_counter list \<Rightarrow> battery_counter list" where
  "sql_update_charge e cid tbl =
     map (\<lambda>r. if counter_id r = cid
               then r\<lparr> total_batt_in_Wh := total_batt_in_Wh r + e,
                        total_batt_net_Wh := total_batt_in_Wh r + e - total_batt_out_Wh r \<rparr>
               else r) tbl"

definition sql_update_discharge :: "real \<Rightarrow> nat \<Rightarrow> battery_counter list \<Rightarrow> battery_counter list" where
  "sql_update_discharge e cid tbl =
     map (\<lambda>r. if counter_id r = cid
               then r\<lparr> total_batt_out_Wh := total_batt_out_Wh r + e,
                        total_batt_net_Wh := total_batt_in_Wh r - (total_batt_out_Wh r + e) \<rparr>
               else r) tbl"

text \<open>\<^verbatim>\<open>update_battery_counter(battery_w, battery_v)\<close>; \<open>poll_s\<close> is \<^verbatim>\<open>POLL_S\<close>.\<close>

definition update_battery_counter :: "real \<Rightarrow> real \<Rightarrow> real option \<Rightarrow> real option \<Rightarrow> battery_counter list \<Rightarrow> battery_counter list" where
  "update_battery_counter poll_s clock bw bv tbl =
     (case bw of
        None \<Rightarrow> tbl
      | Some w \<Rightarrow>
         (case bv of
            None \<Rightarrow> tbl
          | Some v \<Rightarrow>
             (let (counter, tbl1) = get_current_battery_counter clock tbl;
                  energy_wh = (w * poll_s) / 3600.0
              in if w > 0 then sql_update_charge energy_wh (counter_id counter) tbl1
                 else if w < 0 then sql_update_discharge \<bar>energy_wh\<bar> (counter_id counter) tbl1
                 else tbl1)))"

text \<open>A sequence of calls; each carries its arguments and the clock reading of the call.\<close>

record counter_update =
  u_battery_w :: "real option"
  u_battery_v :: "real option"
  u_clock :: real

fun update_seq :: "real \<Rightarrow> counter_update list \<Rightarrow> battery_counter list \<Rightarrow> battery_counter list" where
  "update_seq poll_s [] tbl = tbl"
| "update_seq poll_s (u # us) tbl =
     update_seq poll_s us
       (update_battery_counter poll_s (u_clock u) (u_battery_w u) (u_battery_v u) tbl)"









text \<open>The invariant of a counter row, and the start timestamps of the daily-net rows.\<close>

definition net_ok :: "battery_counter \<Rightarrow> bool" where
  "net_ok c = (total_batt_net_Wh c = total_batt_in_Wh c - total_batt_out_Wh c)"

definition starts :: "battery_counter list \<Rightarrow> int set" where
  "starts tbl = start_timestamp ` {c \<in> set tbl. daily_net c}"

section \<open>Daily analyzer\<close>

text \<open>
  The analyzer (daily_analyzer.py) reads the rows of \<^verbatim>\<open>samples\<close> as dictionaries; a
  missing key and a NULL value are both \<open>None\<close> here. The figures it rounds for display
  (\<^verbatim>\<open>round(x, 3)\<close>) are kept unrounded, and the descriptive entries of its result
  dictionaries (notes, counts, the hourly pattern) are left out.
\<close>

subsection \<open>Aggregation and energy\<close>

text \<open>
  \<^verbatim>\<open>timestamp.replace(minute=(timestamp.minute // interval_minutes) * interval_minutes,
  second=0, microsecond=0)\<close>. Every caller passes 5.
\<close>

definition interval_start :: "int \<Rightarrow> int \<Rightarrow> int" where
  "interval_start ts interval_minutes =
     ts - ts mod 3600 + ((ts_minute_of_hour ts div interval_minutes) * interval_minutes) * 60"

definition present :: "(sample \<Rightarrow> real option) \<Rightarrow> sample list \<Rightarrow> real list" where
  "present f ss = [the (f s). s \<leftarrow> ss, f s \<noteq> None]"

definition mean_of :: "(sample \<Rightarrow> real option) \<Rightarrow> sample list \<Rightarrow> real option" where
  "mean_of f ss = (let values = present f ss in
                     if values = [] then None else Some (sum_list values / real (length values)))"

text \<open>
  \<^verbatim>\<open>_average_samples\<close>: the mean of each of the eight numeric fields over the samples
  that have it, and the timestamp of the first sample. Of an empty list it is the empty
  dictionary, \<open>None\<close> here.
\<close>

fun average_samples :: "sample list \<Rightarrow> sample option" where
  "average_samples [] = None"
| "average_samples (s # ss) =
     Some ((blank_sample (timestamp s))
       \<lparr> pv_w := mean_of pv_w (s # ss), pv_v := mean_of pv_v (s # ss),
         battery_w := mean_of battery_w (s # ss), battery_v := mean_of battery_v (s # ss),
         grid_w := mean_of grid_w (s # ss), grid_v := mean_of grid_v (s # ss),
         load_w := mean_of load_w (s # ss), load_v := mean_of load_v (s # ss) \<rparr>)"

definition flush_interval :: "sample list \<Rightarrow> sample list \<Rightarrow> sample list" where
  "flush_interval current_samples aggregated =
     (case average_samples current_samples of
        None \<Rightarrow> aggregated
      | Some a \<Rightarrow> aggregated @ [a])"

text \<open>The loop of \<^verbatim>\<open>_aggregate_samples_by_interval\<close> with its three variables.\<close>

fun aggregate_loop :: "int \<Rightarrow> sample list \<Rightarrow> int option \<Rightarrow> sample list \<Rightarrow> sample list \<Rightarrow> sample list" where
  "aggregate_loop n [] current_interval current_samples aggregated =
     flush_interval current_samples aggregated"
| "aggregate_loop n (s # ss) current_interval current_samples aggregated =
     (let istart = interval_start (timestamp s) n in
      if current_interval \<noteq> Some istart
      then aggregate_loop n ss (Some istart) [s] (flush_interval current_samples aggregated)
      else aggregate_loop n ss current_interval (current_samples @ [s]) aggregated)"

definition aggregate_samples_by_interval :: "sample list \<Rightarrow> int \<Rightarrow> sample list" where
  "aggregate_samples_by_interval samples interval_minutes =
     (if samples = [] then [] else aggregate_loop interval_minutes samples None [] [])"

text \<open>\<^verbatim>\<open>_calculate_energy_from_power\<close>: the loop, then the conversion to kWh.\<close>

fun energy_loop :: "(sample \<Rightarrow> real option) \<Rightarrow> real \<Rightarrow> sample list \<Rightarrow> real \<Rightarrow> real" where
  "energy_loop f interval_minutes [] total_energy_wh = total_energy_wh"
| "energy_loop f interval_minutes (s # ss) total_energy_wh =
     (case f s of
        Some power_w \<Rightarrow>
          energy_loop f interval_minutes ss (total_energy_wh + \<bar>power_w\<bar> * (interval_minutes / 60.0))
      | None \<Rightarrow> energy_loop f interval_minutes ss total_energy_wh)"

definition calculate_energy_from_power :: "sample list \<Rightarrow> (sample \<Rightarrow> real option) \<Rightarrow> real \<Rightarrow> real" where
  "calculate_energy_from_power samples f interval_minutes =
     (if samples = [] then 0.0 else energy_loop f interval_minutes samples 0 / 1000.0)"

subsection \<open>PV summary\<close>

definition SIGNIFICANT_PRODUCTION_THRESHOLD :: real where
  "SIGNIFICANT_PRODUCTION_THRESHOLD = 100"

definition MIN_SUNRISE_HOUR :: int where
  "MIN_SUNRISE_HOUR = 6"

definition MAX_SUNSET_HOUR :: int where
  "MAX_SUNSET_HOUR = 20"

text \<open>\<^verbatim>\<open>s.get('pv_w') and s['pv_w'] > limit\<close>: present, not zero, and above the limit.\<close>

definition pv_above :: "real \<Rightarrow> sample \<Rightarrow> bool" where
  "pv_above limit s = (case pv_w s of None \<Rightarrow> False | Some p \<Rightarrow> p \<noteq> 0 \<and> p > limit)"

text \<open>The filter loop at the head of \<^verbatim>\<open>_analyze_pv\<close>.\<close>

fun significant_pv_samples :: "sample list \<Rightarrow> sample list" where
  "significant_pv_samples [] = []"
| "significant_pv_samples (s # ss) =
     (if pv_above SIGNIFICANT_PRODUCTION_THRESHOLD s
      then (if MIN_SUNRISE_HOUR \<le> ts_hour (timestamp s) \<and> ts_hour (timestamp s) \<le> MAX_SUNSET_HOUR
            then s # significant_pv_samples ss
            else significant_pv_samples ss)
      else significant_pv_samples ss)"

text \<open>Python's \<^verbatim>\<open>min(xs, key=...)\<close> and \<^verbatim>\<open>max(xs, key=...)\<close> keep the first best.\<close>

fun first_min_by :: "('a \<Rightarrow> 'k::linorder) \<Rightarrow> 'a \<Rightarrow> 'a list \<Rightarrow> 'a" where
  "first_min_by key best [] = best"
| "first_min_by key best (x # xs) = first_min_by key (if key x < key best then x else best) xs"

fun first_max_by :: "('a \<Rightarrow> 'k::linorder) \<Rightarrow> 'a \<Rightarrow> 'a list \<Rightarrow> 'a" where
  "first_max_by key best [] = best"
| "first_max_by key best (x # xs) = first_max_by key (if key x > key best then x else best) xs"

definition pv_value :: "sample \<Rightarrow> real" where
  "pv_value s = (case pv_w s of Some p \<Rightarrow> p | None \<Rightarrow> 0)"

record pv_report =
  total_energy_kwh :: real
  production_start :: int
  production_end :: int
  duration_hours :: real
  peak_power_kw :: real
  peak_time :: int
  avg_power_kw :: real

datatype pv_result = No_significant_production | Significant_production_detected pv_report

definition analyze_pv :: "sample list \<Rightarrow> pv_result" where
  "analyze_pv samples =
     (case significant_pv_samples samples of
        [] \<Rightarrow> No_significant_production
      | s0 # rest \<Rightarrow>
         (let aggregated_samples = aggregate_samples_by_interval (s0 # rest) 5;
              total = calculate_energy_from_power aggregated_samples pv_w 5;
              first_production = first_min_by timestamp s0 rest;
              last_production = first_max_by timestamp s0 rest;
              peak_sample = first_max_by pv_value s0 rest;
              duration = min (real_of_int (timestamp last_production - timestamp first_production) / 3600) 14.0
          in Significant_production_detected
               \<lparr> total_energy_kwh = total,
                 production_start = timestamp first_production,
                 production_end = timestamp last_production,
                 duration_hours = duration,
                 peak_power_kw = pv_value peak_sample / 1000,
                 peak_time = timestamp peak_sample,
                 avg_power_kw = (if duration > 0 then total / duration else 0) \<rparr>))"

subsection \<open>Anomaly detection\<close>

record anomaly =
  a_type :: string
  a_timestamp :: int
  severity :: string

definition night_hours :: "int list" where
  "night_hours = [22, 23] @ [0, 1, 2, 3, 4, 5]"

fun night_pv_samples :: "sample list \<Rightarrow> sample list" where
  "night_pv_samples [] = []"
| "night_pv_samples (s # ss) =
     (if pv_above 100 s
      then (if ts_hour (timestamp s) \<in> set night_hours
            then s # night_pv_samples ss
            else night_pv_samples ss)
      else night_pv_samples ss)"

text \<open>\<^verbatim>\<open>_detect_pv_night_production\<close>.\<close>

definition detect_pv_night_production :: "sample list \<Rightarrow> anomaly list" where
  "detect_pv_night_production samples =
     (case night_pv_samples samples of
        [] \<Rightarrow> []
      | n0 # rest \<Rightarrow>
         (let night_production_kwh = calculate_energy_from_power (n0 # rest) pv_w 5
          in if night_production_kwh > 0.5
             then [\<lparr> a_type = ''pv_night_production_anomaly'', a_timestamp = timestamp n0,
                     severity = ''medium'' \<rparr>]
             else []))"

datatype field = Pv_w | Battery_w | Grid_w | Load_w

fun field_get :: "field \<Rightarrow> sample \<Rightarrow> real option" where
  "field_get Pv_w = pv_w"
| "field_get Battery_w = battery_w"
| "field_get Grid_w = grid_w"
| "field_get Load_w = load_w"

fun field_name :: "field \<Rightarrow> string" where
  "field_name Pv_w = ''pv_w''"
| "field_name Battery_w = ''battery_w''"
| "field_name Grid_w = ''grid_w''"
| "field_name Load_w = ''load_w''"

text \<open>The statistics of the pre-filtered values: mean and population standard deviation.\<close>

definition mean_val :: "real list \<Rightarrow> real" where
  "mean_val vs = sum_list vs / real (length vs)"

definition std_dev :: "real list \<Rightarrow> real" where
  "std_dev vs = sqrt (sum_list (map (\<lambda>x. (x - mean_val vs)\<^sup>2) vs) / real (length vs))"

text \<open>The factor of the standard deviation and the minimum threshold of each field.\<close>

fun sigma_factor :: "field \<Rightarrow> real" where
  "sigma_factor Pv_w = 4"
| "sigma_factor Grid_w = 3.5"
| "sigma_factor Load_w = 3.5"
| "sigma_factor Battery_w = 3"

fun min_threshold :: "field \<Rightarrow> real" where
  "min_threshold Pv_w = 500"
| "min_threshold Grid_w = 500"
| "min_threshold Load_w = 800"
| "min_threshold Battery_w = 300"

text \<open>
  The samples above the threshold, each with its severity. A sample without the field
  reads as 0 (\<^verbatim>\<open>s.get(field, 0)\<close>), which is never above a threshold of at least
  300.
\<close>

fun peak_entries :: "field \<Rightarrow> real \<Rightarrow> real \<Rightarrow> sample list \<Rightarrow> anomaly list" where
  "peak_entries f threshold high_limit [] = []"
| "peak_entries f threshold high_limit (s # ss) =
     (case field_get f s of
        None \<Rightarrow> peak_entries f threshold high_limit ss
      | Some v \<Rightarrow>
          if v > threshold
          then \<lparr> a_type = ''power_peak_'' @ field_name f, a_timestamp = timestamp s,
                 severity = (if v > high_limit then ''high'' else ''medium'') \<rparr>
               # peak_entries f threshold high_limit ss
          else peak_entries f threshold high_limit ss)"

text \<open>
  One round of the first loop of \<^verbatim>\<open>_detect_anomalies\<close>, for one field, over the
  aggregated samples. Each \<^verbatim>\<open>continue\<close> is an empty result.
\<close>

definition power_peaks :: "field \<Rightarrow> sample list \<Rightarrow> anomaly list" where
  "power_peaks f aggregated_samples =
     (if aggregated_samples = [] then []
      else let values = present (field_get f) aggregated_samples in
        if values = [] then []
        else let filtered_values = [v \<leftarrow> values. \<bar>v\<bar> < 10000] in
          if filtered_values = [] then []
          else let m = mean_val filtered_values;
                   sd = std_dev filtered_values;
                   threshold = m + sigma_factor f * sd
               in if f = Pv_w \<and> [v \<leftarrow> filtered_values. v > 100] = [] then []
                  else peak_entries f (max threshold (min_threshold f)) (m + 5 * sd)
                         aggregated_samples)"

text \<open>The second loop: changes between neighbouring aggregated samples.\<close>

definition sudden_change :: "sample \<Rightarrow> sample \<Rightarrow> field \<Rightarrow> anomaly list" where
  "sudden_change prev_s curr_s f =
     (case (field_get f prev_s, field_get f curr_s) of
        (Some a, Some b) \<Rightarrow>
          if \<bar>b - a\<bar> > 8000
          then [\<lparr> a_type = ''sudden_change_'' @ field_name f, a_timestamp = timestamp curr_s,
                  severity = ''medium'' \<rparr>]
          else []
      | _ \<Rightarrow> [])"

fun sudden_changes :: "sample list \<Rightarrow> anomaly list" where
  "sudden_changes (prev_s # curr_s # rest) =
     concat (map (sudden_change prev_s curr_s) [Pv_w, Battery_w, Grid_w, Load_w])
     @ sudden_changes (curr_s # rest)"
| "sudden_changes _ = []"

record anomaly_report =
  total_anomalies :: nat
  anomalies :: "anomaly list"
  high_severity :: nat
  medium_severity :: nat
  pv_night_anomalies :: nat

definition detect_anomalies :: "sample list \<Rightarrow> anomaly_report" where
  "detect_anomalies samples =
     (let aggregated_samples = aggregate_samples_by_interval samples 5;
          peaks = concat (map (\<lambda>f. power_peaks f aggregated_samples) [Pv_w, Battery_w, Grid_w, Load_w]);
          pv_night = detect_pv_night_production samples;
          found = peaks @ sudden_changes aggregated_samples @ pv_night
      in \<lparr> total_anomalies = length found, anomalies = found,
           high_severity = length [a \<leftarrow> found. severity a = ''high''],
           medium_severity = length [a \<leftarrow> found. severity a = ''medium''],
           pv_night_anomalies = length pv_night \<rparr>)"

section \<open>Concrete inputs\<close>


definition empty_db :: db where
  "empty_db = \<lparr> tbl_samples = [], tbl_archive = [], tbl_battery_counters = [] \<rparr>"

definition two_days :: db where
  "two_days = \<lparr> tbl_samples = [(blank_sample 30)\<lparr> pv_w := Some 60 \<rparr>,
                                (blank_sample 40)\<lparr> pv_w := Some 120 \<rparr>,
                                (blank_sample 70)\<lparr> pv_w := Some 30, battery_w := Some (-600) \<rparr>,
                                (blank_sample 90000)\<lparr> pv_w := Some 5 \<rparr>],
                 tbl_archive = [], tbl_battery_counters = [] \<rparr>"





definition night_burst :: "sample list" where
  "night_burst = [(blank_sample 82800)\<lparr> pv_w := Some 3100 \<rparr>,
                  (blank_sample 82805)\<lparr> pv_w := Some 3100 \<rparr>]"

definition evening :: sample where
  "evening = (blank_sample 73800)\<lparr> pv_w := Some 150 \<rparr>"

definition pv_ramp :: "sample list" where
  "pv_ramp = [(blank_sample 43200)\<lparr> pv_w := Some 0 \<rparr>,
              (blank_sample 43500)\<lparr> pv_w := Some 6000 \<rparr>,
              (blank_sample 43800)\<lparr> pv_w := Some 10000 \<rparr>]"

definition load_spike :: "sample list" where
  "load_spike = [(blank_sample 43200)\<lparr> load_w := Some 0 \<rparr>,
                 (blank_sample 43500)\<lparr> load_w := Some 4000 \<rparr>,
                 (blank_sample 43800)\<lparr> load_w := Some 10000 \<rparr>]"

section \<open>The ADS1115 sign correction\<close>

text \<open>Two bytes give a raw value between 0 and 65535.\<close>

lemma ads1115_raw_range:
  assumes "0 \<le> d0" "d0 < 256" "0 \<le> d1" "d1 < 256"
  shows "ads1115_raw d0 d1 = d0 * 256 + d1 \<and> 0 \<le> ads1115_raw d0 d1 \<and> ads1115_raw d0 d1 \<le> 65535"
proof -
  have tb: "take_bit 8 d1 = d1"
    using assms by (simp add: take_bit_int_eq_self)
  have "(push_bit 8 d0) OR d1 = concat_bit 8 d1 d0"
    by (simp add: concat_bit_def tb or.commute)
  also have "\<dots> = d1 + push_bit 8 d0"
    by (simp add: concat_bit_eq tb)
  finally have "ads1115_raw d0 d1 = d0 * 256 + d1"
    by (simp add: ads1115_raw_def push_bit_eq_mult)
  then show ?thesis using assms by simp
qed

text \<open>
  C10. The sign correction maps a raw 16-bit conversion value \<open>r\<close> in [0, 65535] to \<open>r\<close>
  when \<open>r \<le> 32767\<close> and to \<open>r - 65535\<close> otherwise; raw 32768 gives -32767 and raw 65535
  gives 0; for every negative reading the result is one more than the 16-bit two's
  complement value, which the field-bus client's \<open>to_signed16\<close> computes.
\<close>

theorem ads1115_sign_correction:
  "0 \<le> r \<and> r \<le> 65535 \<Longrightarrow>
     ads1115_sign_correct r = (if r \<le> 32767 then r else r - 65535)
     \<and> ads1115_sign_correct 32768 = - 32767
     \<and> ads1115_sign_correct 65535 = 0
     \<and> (r > 32767 \<longrightarrow> ads1115_sign_correct r = to_signed16 r + 1)"
  by (simp add: ads1115_sign_correct_def to_signed16_def)

theorem ads1115_sign_correction_witness:
  "(0::int) \<le> 40000 \<and> (40000::int) \<le> 65535 \<and> ads1115_sign_correct 40000 = - 25535
   \<and> to_signed16 40000 = - 25536"
  using ads1115_sign_correction [of 40000]
  by (simp add: to_signed16_def)

section \<open>Relay setup\<close>

text \<open>
  C9, as the code has it. With a GPIO backend and the relay in gpio mode, setup sets the
  tracked state to OFF and stamps the toggle time, whatever the prior line level and
  whether or not the driver call succeeds. Without a backend, or in another mode, setup
  returns at once and leaves the state as it was.
\<close>

theorem relay_setup_state:
  "(be \<noteq> None \<and> mode_is_gpio cfg \<longrightarrow>
      RELAY_STATE (relay_setup cfg be ok t w) = Some False
      \<and> RELAY_LAST_TOGGLE (relay_setup cfg be ok t w) = t)
   \<and> (be = None \<or> \<not> mode_is_gpio cfg \<longrightarrow> relay_setup cfg be ok t w = w)"
  by (simp add: relay_setup_def Let_def)

theorem relay_setup_state_witness:
  "mode_is_gpio relay_defaults
   \<and> RELAY_STATE (relay_setup relay_defaults (Some Lgpio) False 3 (relay_initial\<lparr> line_level := Some True \<rparr>)) = Some False
   \<and> relay_setup relay_defaults None True 3 relay_initial = relay_initial"
  using relay_setup_state [of "Some Lgpio" relay_defaults False 3 "relay_initial\<lparr> line_level := Some True \<rparr>"]
        relay_setup_state [of None relay_defaults True 3 relay_initial]
  by (simp add: mode_is_gpio_def relay_defaults_def lower_char_def)

text \<open>
  C9, as stated, fails: at process start without a GPIO backend the tracked state stays
  unknown.
\<close>

theorem relay_setup_no_backend_counterexample:
  "RELAY_STATE (relay_setup relay_defaults None True 3 relay_initial) \<noteq> Some False"
  by (simp add: relay_setup_def relay_initial_def)

section \<open>Relay anti-chatter\<close>










section \<open>Duplicate timestamps\<close>

text \<open>
  C3. A sample inserted with the timestamp of a sample inserted just before changes
  nothing: the table, and so its row count and the values stored first, stay as they
  were.
\<close>

theorem insert_same_timestamp_noop:
  "timestamp s2 = timestamp s1 \<Longrightarrow>
     insert_sample s2 (insert_sample s1 d) = insert_sample s1 d
     \<and> length (tbl_samples (insert_sample s2 (insert_sample s1 d)))
         = length (tbl_samples (insert_sample s1 d))"
  by (simp add: insert_sample_def insert_or_ignore_def)

theorem insert_same_timestamp_noop_witness:
  "timestamp ((blank_sample 100)\<lparr> pv_w := Some 900 \<rparr>) = timestamp ((blank_sample 100)\<lparr> pv_w := Some 250 \<rparr>)
   \<and> tbl_samples (insert_sample ((blank_sample 100)\<lparr> pv_w := Some 900 \<rparr>)
         (insert_sample ((blank_sample 100)\<lparr> pv_w := Some 250 \<rparr>) empty_db))
       = [(blank_sample 100)\<lparr> pv_w := Some 250 \<rparr>]"
  using insert_same_timestamp_noop [of "(blank_sample 100)\<lparr> pv_w := Some 900 \<rparr>"
          "(blank_sample 100)\<lparr> pv_w := Some 250 \<rparr>" empty_db]
  by (simp add: insert_sample_def insert_or_ignore_def empty_db_def)

text \<open>More generally, a row whose timestamp is stored already is never written.\<close>

lemma insert_known_timestamp:
  "timestamp s \<in> set (map timestamp (tbl_samples d)) \<Longrightarrow> insert_sample s d = d"
  by (simp add: insert_sample_def insert_or_ignore_def)

section \<open>Archival\<close>

lemma minute_rows_empty_iff:
  "minute_rows cutoff smp = [] \<longleftrightarrow> [s \<leftarrow> smp. timestamp s < cutoff] = []"
proof -
  have "sort (remdups (map (\<lambda>s. ts_min (timestamp s)) [s \<leftarrow> smp. timestamp s < cutoff])) = []
        \<longleftrightarrow> [s \<leftarrow> smp. timestamp s < cutoff] = []"
    by (metis (no_types) map_is_Nil_conv remdups_eq_nil_iff set_empty set_sort)
  then show ?thesis by (simp add: minute_rows_def Let_def)
qed

lemma archive_rows_empty_iff:
  "archive_rows cutoff smp = [] \<longleftrightarrow> [s \<leftarrow> smp. timestamp s < cutoff] = []"
proof -
  have "sort (remdups (map (\<lambda>m. ts_date (m_ts_min m)) (minute_rows cutoff smp))) = []
        \<longleftrightarrow> minute_rows cutoff smp = []"
    by (metis (no_types) map_is_Nil_conv remdups_eq_nil_iff set_empty set_sort)
  then show ?thesis by (simp add: archive_rows_def Let_def minute_rows_empty_iff)
qed

lemma trimmed_has_none_older:
  "[s \<leftarrow> [s \<leftarrow> smp. \<not> timestamp s < cutoff]. timestamp s < cutoff] = []"
  by (induction smp) auto

lemma archive_rows_after_trim:
  "archive_rows cutoff [s \<leftarrow> smp. \<not> timestamp s < cutoff] = []"
  by (simp only: archive_rows_empty_iff trimmed_has_none_older)

lemma archive_apply_noop_when_nothing_older:
  assumes "[s \<leftarrow> tbl_samples d. timestamp s < cutoff] = []"
  shows "archive_compute_and_apply cutoff ap d = (\<lparr> minutes_to_delete = 0, days_to_archive = 0 \<rparr>, d)"
proof -
  have "archive_rows cutoff (tbl_samples d) = []"
    using assms by (simp only: archive_rows_empty_iff)
  then show ?thesis using assms by (simp add: archive_compute_and_apply_def)
qed

lemma archive_apply_leaves_none_older:
  "[s \<leftarrow> tbl_samples (snd (archive_compute_and_apply cutoff True d)). timestamp s < cutoff] = []"
proof (cases "archive_rows cutoff (tbl_samples d) = []")
  case True
  then have "[s \<leftarrow> tbl_samples d. timestamp s < cutoff] = []"
    by (simp only: archive_rows_empty_iff)
  then show ?thesis by (simp add: archive_apply_noop_when_nothing_older)
next
  case False
  then show ?thesis
    by (simp add: archive_compute_and_apply_def Let_def trimmed_has_none_older)
qed

text \<open>
  C4. Archival is idempotent. Run again with the same cutoff right after a first run,
  \<open>archive_compute_and_apply\<close> reports nothing to delete and nothing to archive and
  returns the database of the first run, archive rows and samples alike; and so does
  \<open>db_archive_and_trim\<close>, when its two clock readings give the same cutoff.
\<close>

theorem archive_idempotent:
  "archive_compute_and_apply cutoff True (snd (archive_compute_and_apply cutoff True d))
     = (\<lparr> minutes_to_delete = 0, days_to_archive = 0 \<rparr>, snd (archive_compute_and_apply cutoff True d))
   \<and> (archive_cutoff clock2 days = archive_cutoff clock1 days \<longrightarrow>
        db_archive_and_trim clock2 days (db_archive_and_trim clock1 days d)
          = db_archive_and_trim clock1 days d)"
proof
  show "archive_compute_and_apply cutoff True (snd (archive_compute_and_apply cutoff True d))
     = (\<lparr> minutes_to_delete = 0, days_to_archive = 0 \<rparr>, snd (archive_compute_and_apply cutoff True d))"
    by (rule archive_apply_noop_when_nothing_older) (rule archive_apply_leaves_none_older)
next
  show "archive_cutoff clock2 days = archive_cutoff clock1 days \<longrightarrow>
        db_archive_and_trim clock2 days (db_archive_and_trim clock1 days d)
          = db_archive_and_trim clock1 days d"
  proof
    assume eq: "archive_cutoff clock2 days = archive_cutoff clock1 days"
    show "db_archive_and_trim clock2 days (db_archive_and_trim clock1 days d)
          = db_archive_and_trim clock1 days d"
      by (simp add: db_archive_and_trim_def Let_def eq archive_rows_after_trim)
  qed
qed

lemma two_days_first_run:
  "archive_compute_and_apply 86400 True two_days =
     (\<lparr> minutes_to_delete = 3, days_to_archive = 1 \<rparr>,
      \<lparr> tbl_samples = [(blank_sample 90000)\<lparr> pv_w := Some 5 \<rparr>],
        tbl_archive = [\<lparr> day = 0, pv_Wh = Some 2, load_Wh = None, grid_Wh = None,
                         batt_in_Wh = Some 0, batt_out_Wh = Some 10 \<rparr>],
        tbl_battery_counters = [] \<rparr>)"
  by (simp add: two_days_def archive_compute_and_apply_def archive_rows_def minute_rows_def
      archive_row_of_def minute_row_of_def
      Let_def blank_sample_def ts_min_def ts_date_def sql_avg_def sql_sum_def sql_div60_def
      non_null_def batt_in_case_def batt_out_case_def archive_upsert_def)

theorem archive_idempotent_witness:
  "archive_cutoff 200000.5 1 = archive_cutoff 259199 1
   \<and> archive_compute_and_apply 86400 True (snd (archive_compute_and_apply 86400 True two_days))
      = (\<lparr> minutes_to_delete = 0, days_to_archive = 0 \<rparr>,
         \<lparr> tbl_samples = [(blank_sample 90000)\<lparr> pv_w := Some 5 \<rparr>],
           tbl_archive = [\<lparr> day = 0, pv_Wh = Some 2, load_Wh = None, grid_Wh = None,
                            batt_in_Wh = Some 0, batt_out_Wh = Some 10 \<rparr>],
           tbl_battery_counters = [] \<rparr>)
   \<and> db_archive_and_trim 259199 1 (db_archive_and_trim 200000.5 1 two_days)
      = db_archive_and_trim 200000.5 1 two_days"
proof -
  have c: "archive_cutoff 200000.5 1 = archive_cutoff 259199 1"
    by (simp add: archive_cutoff_def now_str_def)
  show ?thesis
    using c archive_idempotent [of 86400 two_days 259199 1 "200000.5"]
    by (simp add: two_days_first_run)
qed

section \<open>Battery counter totals\<close>

lemma new_counter_daily [simp]: "daily_net (new_counter i ts)"
  by (simp add: new_counter_def daily_net_def)



text \<open>On an empty table the first effective call creates the counter.\<close>

lemma update_creates_counter:
  "update_battery_counter poll_s clock (Some w) (Some v) []
     = update_battery_counter poll_s clock (Some w) (Some v) [new_counter 1 (now_str clock)]"
  by (simp add: update_battery_counter_def get_current_battery_counter_def next_id_def Let_def)

text \<open>The invariant on every row of any table.\<close>

lemma sql_update_charge_net:
  "list_all net_ok tbl \<Longrightarrow> list_all net_ok (sql_update_charge e cid tbl)"
  by (induction tbl) (auto simp: sql_update_charge_def net_ok_def)

lemma sql_update_discharge_net:
  "list_all net_ok tbl \<Longrightarrow> list_all net_ok (sql_update_discharge e cid tbl)"
  by (induction tbl) (auto simp: sql_update_discharge_def net_ok_def)

lemma get_current_net:
  "list_all net_ok tbl \<Longrightarrow> list_all net_ok (snd (get_current_battery_counter clock tbl))"
  by (cases "latest_counter tbl")
     (simp_all add: get_current_battery_counter_def Let_def net_ok_def new_counter_def)

lemma update_net:
  assumes "list_all net_ok tbl"
  shows "list_all net_ok (update_battery_counter poll_s clock bw bv tbl)"
proof (cases bw)
  case None
  then show ?thesis using assms by (simp add: update_battery_counter_def)
next
  case w: (Some w)
  show ?thesis
  proof (cases bv)
    case None
    then show ?thesis using assms w by (simp add: update_battery_counter_def)
  next
    case v: (Some v)
    obtain c tbl1 where g: "get_current_battery_counter clock tbl = (c, tbl1)"
      by (cases "get_current_battery_counter clock tbl")
    have "list_all net_ok tbl1" using get_current_net [OF assms, of clock] g by simp
    then show ?thesis using w v g
      by (simp add: update_battery_counter_def sql_update_charge_net sql_update_discharge_net Let_def)
  qed
qed

lemma update_seq_net:
  "list_all net_ok tbl \<Longrightarrow> list_all net_ok (update_seq poll_s us tbl)"
  by (induction us arbitrary: tbl) (simp_all add: update_net)



section \<open>Automatic reset of the battery counter\<close>


lemma starts_Nil [simp]: "starts [] = {}"
  by (simp add: starts_def)























section \<open>PV night production\<close>


lemma pv_above_value: "pv_above 100 s \<longleftrightarrow> pv_value s > 100"
  by (auto simp add: pv_above_def pv_value_def split: option.splits)






lemma hours_of_inputs: "ts_hour 82800 = 23" "ts_hour 83100 = 23" "ts_hour 43200 = 12" "ts_hour 73800 = 20"
  by (simp_all add: ts_hour_def)




text \<open>
  The check receives the raw samples, not the five-minute averages: two samples five
  seconds apart count as ten minutes.
\<close>

lemma night_burst_counts_each_sample:
  "detect_pv_night_production night_burst =
     [\<lparr> a_type = ''pv_night_production_anomaly'', a_timestamp = 82800, severity = ''medium'' \<rparr>]
   \<and> calculate_energy_from_power night_burst pv_w 5 = 31 / 60
   \<and> calculate_energy_from_power (aggregate_samples_by_interval night_burst 5) pv_w 5 = 31 / 120"
proof -
  have n: "night_pv_samples night_burst = night_burst"
    by (simp add: night_burst_def pv_above_def ts_hour_def night_hours_def blank_sample_def)
  have e: "calculate_energy_from_power night_burst pv_w 5 = 31 / 60"
    by (simp add: night_burst_def calculate_energy_from_power_def blank_sample_def)
  have i: "interval_start 82800 5 = 82800" "interval_start 82805 5 = 82800"
    by (simp_all add: interval_start_def ts_minute_of_hour_def)
  have a: "calculate_energy_from_power (aggregate_samples_by_interval night_burst 5) pv_w 5 = 31 / 120"
    by (simp add: night_burst_def aggregate_samples_by_interval_def flush_interval_def i
        mean_of_def present_def calculate_energy_from_power_def blank_sample_def Let_def)
  have d: "detect_pv_night_production night_burst =
     [\<lparr> a_type = ''pv_night_production_anomaly'', a_timestamp = 82800, severity = ''medium'' \<rparr>]"
    using e by (simp add: detect_pv_night_production_def n Let_def)
       (simp add: night_burst_def blank_sample_def)
  show ?thesis using d e a by blast
qed

section \<open>Significant PV production\<close>

lemma significant_pv_filter:
  "significant_pv_samples ss =
     [s \<leftarrow> ss. pv_value s > 100 \<and> 6 \<le> ts_hour (timestamp s) \<and> ts_hour (timestamp s) \<le> 20]"
  by (induction ss)
     (simp_all add: pv_above_value SIGNIFICANT_PRODUCTION_THRESHOLD_def MIN_SUNRISE_HOUR_def
        MAX_SUNSET_HOUR_def)

lemma evening_aggregated:
  "aggregate_samples_by_interval [evening] 5 = [evening]"
  by (simp add: aggregate_samples_by_interval_def flush_interval_def evening_def
      mean_of_def present_def blank_sample_def)

text \<open>
  C6 does not hold of the code. A sample of 150 W at 20:30 lies outside the window
  [6,20) of the claim, and outside the 6:00 to 20:00 of the code's own comments and
  note; the filter's \<open>hour \<le> 20\<close> lets it through, and it makes up the whole summary.
\<close>

theorem pv_counts_hour_20:
  "ts_hour (timestamp evening) = 20
   \<and> pv_w evening = Some 150
   \<and> significant_pv_samples [evening] = [evening]
   \<and> analyze_pv [evening] =
       Significant_production_detected
         \<lparr> total_energy_kwh = 1 / 80, production_start = 73800, production_end = 73800,
           duration_hours = 0, peak_power_kw = 3 / 20, peak_time = 73800, avg_power_kw = 0 \<rparr>"
proof -
  have h: "ts_hour (timestamp evening) = 20" "pv_w evening = Some 150" "timestamp evening = 73800"
    by (simp_all add: evening_def hours_of_inputs blank_sample_def)
  have p: "pv_above SIGNIFICANT_PRODUCTION_THRESHOLD evening"
    by (simp add: pv_above_def h(2) SIGNIFICANT_PRODUCTION_THRESHOLD_def)
  have w: "MIN_SUNRISE_HOUR \<le> ts_hour (timestamp evening) \<and> ts_hour (timestamp evening) \<le> MAX_SUNSET_HOUR"
    by (simp add: h(1) MIN_SUNRISE_HOUR_def MAX_SUNSET_HOUR_def)
  have s: "significant_pv_samples [evening] = [evening]"
    using p w by simp
  have a: "analyze_pv [evening] =
       Significant_production_detected
         \<lparr> total_energy_kwh = 1 / 80, production_start = 73800, production_end = 73800,
           duration_hours = 0, peak_power_kw = 3 / 20, peak_time = 73800, avg_power_kw = 0 \<rparr>"
    by (simp add: p analyze_pv_def evening_aggregated calculate_energy_from_power_def
        pv_value_def h(2,3) hours_of_inputs MIN_SUNRISE_HOUR_def MAX_SUNSET_HOUR_def Let_def)
  show ?thesis using h(1,2) s a by blast
qed

section \<open>Power peaks\<close>

lemma peak_entries_iff:
  "a \<in> set (peak_entries f thr hi ss) \<longleftrightarrow>
     (\<exists>s \<in> set ss. \<exists>v. field_get f s = Some v \<and> v > thr
        \<and> a = \<lparr> a_type = ''power_peak_'' @ field_name f, a_timestamp = timestamp s,
                 severity = (if v > hi then ''high'' else ''medium'') \<rparr>)"
proof (induction ss)
  case Nil
  then show ?case by simp
next
  case (Cons s ss)
  show ?case
  proof (cases "field_get f s")
    case None
    then show ?thesis using Cons by simp
  next
    case (Some v)
    then show ?thesis using Cons by (cases "v > thr") auto
  qed
qed

lemma power_peaks_iff:
  "a \<in> set (power_peaks f agg) \<longleftrightarrow>
     (let vs = [v \<leftarrow> present (field_get f) agg. \<bar>v\<bar> < 10000];
          m = mean_val vs; sd = std_dev vs
      in vs \<noteq> [] \<and> (f = Pv_w \<longrightarrow> (\<exists>v \<in> set vs. v > 100)) \<and>
         (\<exists>s \<in> set agg. \<exists>v. field_get f s = Some v
            \<and> v > max (m + sigma_factor f * sd) (min_threshold f)
            \<and> a = \<lparr> a_type = ''power_peak_'' @ field_name f, a_timestamp = timestamp s,
                     severity = (if v > m + 5 * sd then ''high'' else ''medium'') \<rparr>))"
proof (cases "[v \<leftarrow> present (field_get f) agg. \<bar>v\<bar> < 10000] = []")
  case True
  then show ?thesis by (simp add: power_peaks_def Let_def)
next
  case False
  then have ne1: "present (field_get f) agg \<noteq> []"
    by auto
  then have ne2: "agg \<noteq> []"
    by (auto simp: present_def)
  note ne = ne1 ne2
  have gate: "([v \<leftarrow> [v \<leftarrow> present (field_get f) agg. \<bar>v\<bar> < 10000]. v > 100] = [])
       \<longleftrightarrow> \<not> (\<exists>v \<in> set [v \<leftarrow> present (field_get f) agg. \<bar>v\<bar> < 10000]. v > 100)"
    by (simp only: filter_empty_conv) blast
  show ?thesis
  proof (cases "f = Pv_w \<and> \<not> (\<exists>v \<in> set [v \<leftarrow> present (field_get f) agg. \<bar>v\<bar> < 10000]. v > 100)")
    case True
    then show ?thesis using False ne gate
      by (simp add: power_peaks_def Let_def)
  next
    case nogate: False
    then have "power_peaks f agg =
        peak_entries f
          (max (mean_val [v \<leftarrow> present (field_get f) agg. \<bar>v\<bar> < 10000]
                + sigma_factor f * std_dev [v \<leftarrow> present (field_get f) agg. \<bar>v\<bar> < 10000])
               (min_threshold f))
          (mean_val [v \<leftarrow> present (field_get f) agg. \<bar>v\<bar> < 10000]
             + 5 * std_dev [v \<leftarrow> present (field_get f) agg. \<bar>v\<bar> < 10000])
          agg"
      using False ne gate by (auto simp add: power_peaks_def Let_def)
    then show ?thesis using False nogate
      by (simp add: peak_entries_iff Let_def) blast
  qed
qed

lemma power_peaks_type:
  "a \<in> set (power_peaks g agg) \<Longrightarrow> a_type a = ''power_peak_'' @ field_name g"
  unfolding power_peaks_iff by (auto simp: Let_def)

lemma field_name_inj: "field_name f = field_name g \<Longrightarrow> f = g"
  by (cases f; cases g) simp_all

lemma sudden_change_type:
  "a \<in> set (sudden_change p c g) \<Longrightarrow> a_type a \<noteq> ''power_peak_'' @ x"
  by (cases "field_get g p"; cases "field_get g c")
     (auto simp: sudden_change_def split: if_splits)

lemma sudden_changes_type:
  "a \<in> set (sudden_changes agg) \<Longrightarrow> a_type a \<noteq> ''power_peak_'' @ x"
proof (induction agg rule: sudden_changes.induct)
  case (1 p c rest)
  then show ?case using sudden_change_type by (auto simp del: sudden_change_def)
qed simp_all

lemma night_type:
  "a \<in> set (detect_pv_night_production samples) \<Longrightarrow> a_type a \<noteq> ''power_peak_'' @ x"
  by (cases "night_pv_samples samples")
     (auto simp: detect_pv_night_production_def Let_def split: if_splits)

lemma anomalies_of_report:
  "anomalies (detect_anomalies samples) =
     concat (map (\<lambda>f. power_peaks f (aggregate_samples_by_interval samples 5))
                 [Pv_w, Battery_w, Grid_w, Load_w])
     @ sudden_changes (aggregate_samples_by_interval samples 5)
     @ detect_pv_night_production samples"
  by (simp add: detect_anomalies_def Let_def)

lemma report_peaks:
  "(a \<in> set (anomalies (detect_anomalies samples)) \<and> a_type a = ''power_peak_'' @ field_name f)
   \<longleftrightarrow> a \<in> set (power_peaks f (aggregate_samples_by_interval samples 5))"
proof
  assume l: "a \<in> set (anomalies (detect_anomalies samples)) \<and> a_type a = ''power_peak_'' @ field_name f"
  then have ty: "a_type a = ''power_peak_'' @ field_name f" by simp
  from l have "a \<in> set (sudden_changes (aggregate_samples_by_interval samples 5))
      \<or> a \<in> set (detect_pv_night_production samples)
      \<or> (\<exists>g. a \<in> set (power_peaks g (aggregate_samples_by_interval samples 5)))"
    unfolding anomalies_of_report by auto
  then obtain g where g: "a \<in> set (power_peaks g (aggregate_samples_by_interval samples 5))"
    using ty sudden_changes_type night_type by blast
  then have "field_name g = field_name f"
    using power_peaks_type [OF g] ty by simp
  then show "a \<in> set (power_peaks f (aggregate_samples_by_interval samples 5))"
    using g field_name_inj by blast
next
  assume r: "a \<in> set (power_peaks f (aggregate_samples_by_interval samples 5))"
  have "a \<in> set (anomalies (detect_anomalies samples))"
    unfolding anomalies_of_report using r by (cases f) simp_all
  then show "a \<in> set (anomalies (detect_anomalies samples)) \<and> a_type a = ''power_peak_'' @ field_name f"
    using power_peaks_type [OF r] by simp
qed

text \<open>
  C5, as the code has it. The report holds a power-peak anomaly of a field exactly for
  the five-minute averages that exceed \<open>max (mean + k * sd) floor\<close>, with
  \<open>(k, floor)\<close> = PV (4, 500), grid (3.5, 500), load (3.5, 800), battery (3, 300), and
  with severity high above \<open>mean + 5 * sd\<close>, medium otherwise; mean and standard
  deviation are those of the field's values of magnitude below 10 kW, for PV as for the
  others; and nothing is reported for a field without such values, nor for PV when none
  of them is above 100 W.
\<close>

theorem power_peak_flagging:
  "(a \<in> set (anomalies (detect_anomalies samples)) \<and> a_type a = ''power_peak_'' @ field_name f)
   \<longleftrightarrow>
     (let agg = aggregate_samples_by_interval samples 5;
          vs = [v \<leftarrow> present (field_get f) agg. \<bar>v\<bar> < 10000];
          m = mean_val vs; sd = std_dev vs
      in vs \<noteq> [] \<and> (f = Pv_w \<longrightarrow> (\<exists>v \<in> set vs. v > 100)) \<and>
         (\<exists>s \<in> set agg. \<exists>v. field_get f s = Some v
            \<and> v > max (m + sigma_factor f * sd) (min_threshold f)
            \<and> a = \<lparr> a_type = ''power_peak_'' @ field_name f, a_timestamp = timestamp s,
                     severity = (if v > m + 5 * sd then ''high'' else ''medium'') \<rparr>))"
  unfolding report_peaks power_peaks_iff by (simp add: Let_def)

lemma sqrt_9e6: "sqrt 9000000 = 3000"
  by (rule real_sqrt_unique) simp_all

lemma sqrt_4e6: "sqrt 4000000 = 2000"
  by (rule real_sqrt_unique) simp_all

lemma stats_0_6000: "mean_val [0, 6000] = 3000" "std_dev [0, 6000] = 3000"
  by (simp_all add: mean_val_def std_dev_def sqrt_9e6)

lemma stats_6000: "mean_val [6000] = 6000" "std_dev [6000] = 0"
  by (simp_all add: mean_val_def std_dev_def)

lemma stats_0_4000: "mean_val [0, 4000] = 2000" "std_dev [0, 4000] = 2000"
  by (simp_all add: mean_val_def std_dev_def sqrt_4e6)

lemma interval_starts:
  "interval_start 43200 5 = 43200" "interval_start 43500 5 = 43500" "interval_start 43800 5 = 43800"
  by (simp_all add: interval_start_def ts_minute_of_hour_def)

lemma blank_fields:
  "timestamp (blank_sample t) = t" "pv_w (blank_sample t) = None"
  "battery_w (blank_sample t) = None" "grid_w (blank_sample t) = None"
  "load_w (blank_sample t) = None" "pv_v (blank_sample t) = None"
  "battery_v (blank_sample t) = None" "grid_v (blank_sample t) = None"
  "load_v (blank_sample t) = None"
  by (simp_all add: blank_sample_def)

lemma average_single_pv:
  "average_samples [(blank_sample t)\<lparr> pv_w := Some p \<rparr>] = Some ((blank_sample t)\<lparr> pv_w := Some p \<rparr>)"
  by (simp add: mean_of_def present_def blank_sample_def)

lemma average_single_load:
  "average_samples [(blank_sample t)\<lparr> load_w := Some p \<rparr>] = Some ((blank_sample t)\<lparr> load_w := Some p \<rparr>)"
  by (simp add: mean_of_def present_def blank_sample_def)

lemma pv_ramp_aggregated: "aggregate_samples_by_interval pv_ramp 5 = pv_ramp"
  by (simp add: pv_ramp_def aggregate_samples_by_interval_def flush_interval_def
      interval_starts blank_fields average_single_pv Let_def del: average_samples.simps(2))

lemma load_spike_aggregated: "aggregate_samples_by_interval load_spike 5 = load_spike"
  by (simp add: load_spike_def aggregate_samples_by_interval_def flush_interval_def
      interval_starts blank_fields average_single_load Let_def del: average_samples.simps(2))

lemma pv_ramp_present:
  "present pv_w pv_ramp = [0, 6000, 10000]" "present battery_w pv_ramp = []"
  "present grid_w pv_ramp = []" "present load_w pv_ramp = []"
  by (simp_all add: pv_ramp_def present_def blank_fields)

lemma load_spike_present:
  "present load_w load_spike = [0, 4000, 10000]"
  by (simp_all add: load_spike_def present_def blank_fields)

lemma pv_ramp_peaks: "power_peaks f pv_ramp = []"
proof (cases f)
  case Pv_w
  have "peak_entries Pv_w 15000 18000 pv_ramp = []"
    by (simp add: pv_ramp_def blank_fields)
  then show ?thesis
    by (simp add: Pv_w power_peaks_def pv_ramp_present stats_0_6000 Let_def)
qed (simp_all add: power_peaks_def pv_ramp_present)

lemma hours_noon: "ts_hour 43200 = 12" "ts_hour 43500 = 12" "ts_hour 43800 = 12"
  by (simp_all add: ts_hour_def)

lemma pv_ramp_sudden: "sudden_changes pv_ramp = []"
  by (simp add: pv_ramp_def sudden_change_def blank_fields)

lemma pv_ramp_night: "detect_pv_night_production pv_ramp = []"
  by (simp add: pv_ramp_def detect_pv_night_production_def pv_above_def blank_fields hours_noon
      night_hours_def)

text \<open>
  C5, as stated, fails. The PV averages 0, 6000 and 10000 W leave 6000 as the only value
  below 10 kW and above 100 W, so the threshold of the claim is 6000 W and the average
  of 10000 W exceeds it; the code takes its statistics from 0 and 6000, reaches a
  threshold of 15000 W and reports nothing.
\<close>

theorem power_peak_pv_counterexample:
  "present pv_w (aggregate_samples_by_interval pv_ramp 5) = [0, 6000, 10000]
   \<and> [v \<leftarrow> [0, 6000, 10000 :: real]. \<bar>v\<bar> < 10000 \<and> v > 100] = [6000]
   \<and> max (mean_val [6000] + 4 * std_dev [6000]) 500 < 10000
   \<and> anomalies (detect_anomalies pv_ramp) = []"
  by (simp add: pv_ramp_aggregated pv_ramp_present stats_6000 anomalies_of_report
      pv_ramp_peaks pv_ramp_sudden pv_ramp_night)

theorem power_peak_flagging_witness:
  "\<lparr> a_type = ''power_peak_load_w'', a_timestamp = 43800, severity = ''medium'' \<rparr>
     \<in> set (anomalies (detect_anomalies load_spike))
   \<and> mean_val [0, 4000] + 3.5 * std_dev [0, 4000] = 9000
   \<and> mean_val [0, 4000] + 5 * std_dev [0, 4000] = 12000"
proof -
  have rhs: "let agg = aggregate_samples_by_interval load_spike 5;
          vs = [v \<leftarrow> present (field_get Load_w) agg. \<bar>v\<bar> < 10000];
          m = mean_val vs; sd = std_dev vs
      in vs \<noteq> [] \<and> (Load_w = Pv_w \<longrightarrow> (\<exists>v \<in> set vs. v > 100)) \<and>
         (\<exists>s \<in> set agg. \<exists>v. field_get Load_w s = Some v
            \<and> v > max (m + sigma_factor Load_w * sd) (min_threshold Load_w)
            \<and> \<lparr> a_type = ''power_peak_load_w'', a_timestamp = 43800, severity = ''medium'' \<rparr>
               = \<lparr> a_type = ''power_peak_'' @ field_name Load_w, a_timestamp = timestamp s,
                     severity = (if v > m + 5 * sd then ''high'' else ''medium'') \<rparr>)"
    by (simp add: load_spike_aggregated load_spike_present stats_0_4000 Let_def)
       (simp add: load_spike_def blank_fields, rule exI [of _ 10000], simp)
  show ?thesis
    using power_peak_flagging [THEN iffD2, OF rhs]
    by (simp add: stats_0_4000)
qed

end
